theory Spec2Isabelle
  imports Main "HOL-Library.Word"
begin

unbundle bit_operations_syntax

section \<open>Values and strings of the gateway\<close>

text \<open>
  The gateway (\<^verbatim>\<open>index.js\<close>) is a JavaScript program built on three packages that are
  not part of it: \<^verbatim>\<open>sdp-transform\<close> (\<^verbatim>\<open>parse\<close>, \<^verbatim>\<open>write\<close>), \<^verbatim>\<open>sip\<close> (\<^verbatim>\<open>proxy.send\<close>,
  \<^verbatim>\<open>makeResponse\<close>) and \<^verbatim>\<open>sip/digest\<close> (\<^verbatim>\<open>signRequest\<close>). What these packages compute
  is taken as a parameter of the model, or recorded as a call; what \<^verbatim>\<open>index.js\<close> itself
  does with their results is modelled as written.

  A property of a parsed SDP object holds a number where the text was a canonical
  integer, the matched text otherwise, and \<^verbatim>\<open>undefined\<close> where nothing matched.
\<close>

datatype jsval = JUndefined | JNum int | JStr string

text \<open>
  A message body is kept as its UTF-16 code units, since the handler observes its length
  in UTF-8 bytes.
\<close>

type_synonym jsstring = "16 word list"

subsection \<open>\<^verbatim>\<open>parseInt\<close>\<close>

definition isWhiteSpace :: "char \<Rightarrow> bool" where
  "isWhiteSpace c = ((of_char c :: nat) \<in> {9, 10, 11, 12, 13, 32, 160})"

definition digitValue :: "char \<Rightarrow> nat option" where
  "digitValue c =
     (let n = (of_char c :: nat)
      in if 48 \<le> n \<and> n \<le> 57 then Some (n - 48)
         else if 97 \<le> n \<and> n \<le> 122 then Some (n - 87)
         else if 65 \<le> n \<and> n \<le> 90 then Some (n - 55)
         else None)"

definition isRadixDigit :: "nat \<Rightarrow> char \<Rightarrow> bool" where
  "isRadixDigit R c = (case digitValue c of None \<Rightarrow> False | Some d \<Rightarrow> d < R)"

definition digitsValue :: "nat \<Rightarrow> string \<Rightarrow> nat" where
  "digitsValue R z =
     foldl (\<lambda>a c. a * R + (case digitValue c of None \<Rightarrow> 0 | Some d \<Rightarrow> d)) 0 z"

text \<open>
  \<^verbatim>\<open>parseInt(s)\<close> with no radix: leading white space is skipped, one sign is read, a
  \<^verbatim>\<open>0x\<close> prefix selects radix 16, and the longest run of digits is the value; no digit
  gives \<^verbatim>\<open>NaN\<close>, here \<open>None\<close>. JavaScript rounds the value to a double; the handler
  only compares it with 0, 8 and 101, which rounding neither produces nor destroys, so
  the exact integer is kept.
\<close>

definition parseIntString :: "string \<Rightarrow> int option" where
  "parseIntString s =
     (let s1 = dropWhile isWhiteSpace s;
          neg = (s1 \<noteq> [] \<and> hd s1 = CHR ''-'');
          s2 = (if s1 \<noteq> [] \<and> (hd s1 = CHR ''-'' \<or> hd s1 = CHR ''+'') then tl s1 else s1);
          hex = (take 2 s2 = ''0x'' \<or> take 2 s2 = ''0X'');
          R = (if hex then 16 else 10);
          s3 = (if hex then drop 2 s2 else s2);
          z = takeWhile (isRadixDigit R) s3
      in if z = [] then None
         else Some ((if neg then - 1 else 1) * int (digitsValue R z)))"

text \<open>
  A number is first printed; the numbers of a parsed SDP object are non-negative
  integers that print as their own digits, so \<^verbatim>\<open>parseInt\<close> gives them back.
  \<^verbatim>\<open>undefined\<close> prints as a word without digits.
\<close>

fun parseInt :: "jsval \<Rightarrow> int option" where
  "parseInt JUndefined = None"
| "parseInt (JNum n) = Some n"
| "parseInt (JStr s) = parseIntString s"

section \<open>The SDP object\<close>

record rtp_entry =
  rtp_payload :: jsval
  rtp_codec :: jsval
  rtp_rate :: jsval
  rtp_encoding :: jsval

record fmtp_entry =
  fmtp_payload :: jsval
  fmtp_config :: jsval

record rtcp_attr =
  rtcp_port :: jsval
  rtcp_netType :: jsval
  rtcp_ipVer :: jsval
  rtcp_address :: jsval

text \<open>
  A media description: the properties the gateway reads or writes, and the rest of the
  object (\<open>m_other\<close>), which it never touches. \<open>None\<close> is a property that is
  \<^verbatim>\<open>undefined\<close>.
\<close>

record media =
  mtype :: jsval
  payloads :: jsval
  rtp :: "rtp_entry list option"
  fmtp :: "fmtp_entry list option"
  rtcp :: "rtcp_attr option"
  m_other :: "(string \<times> jsval) list"

record session =
  media :: "media list option"
  s_other :: "(string \<times> jsval) list"

section \<open>\<^verbatim>\<open>rewriteSdp\<close>\<close>

definition allowedPayloads :: "int list" where
  "allowedPayloads = [0, 8, 101]"

text \<open>\<^verbatim>\<open>allowedPayloads.includes(v)\<close>: only a number can be equal to a member.\<close>

fun includes_allowed :: "jsval \<Rightarrow> bool" where
  "includes_allowed (JNum n) = (n \<in> set allowedPayloads)"
| "includes_allowed _ = False"

text \<open>\<^verbatim>\<open>allowedPayloads.includes(parseInt(v))\<close>: \<^verbatim>\<open>NaN\<close> is no member.\<close>

definition includes_parsed :: "jsval \<Rightarrow> bool" where
  "includes_parsed v = (case parseInt v of None \<Rightarrow> False | Some n \<Rightarrow> n \<in> set allowedPayloads)"

definition telephone_event_rtp :: rtp_entry where
  "telephone_event_rtp =
     \<lparr>rtp_payload = JNum 101, rtp_codec = JStr ''telephone-event'', rtp_rate = JNum 8000,
      rtp_encoding = JUndefined\<rparr>"

definition telephone_event_fmtp :: fmtp_entry where
  "telephone_event_fmtp = \<lparr>fmtp_payload = JNum 101, fmtp_config = JStr ''0-16''\<rparr>"

text \<open>
  The body of the \<^verbatim>\<open>map\<close> callback for one media description. \<^verbatim>\<open>media.rtp.filter\<close> on
  an \<^verbatim>\<open>undefined\<close> \<^verbatim>\<open>rtp\<close> raises a TypeError, here \<open>None\<close>; \<^verbatim>\<open>media.fmtp\<close> is guarded by
  \<^verbatim>\<open>|| []\<close>.
\<close>

definition rewriteMedia :: "media \<Rightarrow> media option" where
  "rewriteMedia m =
     (if mtype m = JStr ''audio'' then
        (case rtp m of
           None \<Rightarrow> None
         | Some rs \<Rightarrow>
             let rs1 = filter (\<lambda>r. includes_allowed (rtp_payload r)) rs;
                 rs2 = (if find (\<lambda>r. rtp_payload r = JNum 101) rs1 = None
                        then rs1 @ [telephone_event_rtp] else rs1);
                 fs1 = filter (\<lambda>f. includes_parsed (fmtp_payload f))
                         (case fmtp m of None \<Rightarrow> [] | Some fs \<Rightarrow> fs);
                 fs2 = (if find (\<lambda>f. parseInt (fmtp_payload f) = Some 101) fs1 = None
                        then fs1 @ [telephone_event_fmtp] else fs1)
             in Some (m\<lparr>payloads := JStr ''0 8 101'', rtp := Some rs2, fmtp := Some fs2,
                        rtcp := None\<rparr>))
      else Some m)"

text \<open>
  \<^verbatim>\<open>parsed.media.map(...)\<close>: the first media description that raises ends the whole map,
  and so does an \<^verbatim>\<open>undefined\<close> \<^verbatim>\<open>parsed.media\<close>.
\<close>

fun mapMedia :: "media list \<Rightarrow> media list option" where
  "mapMedia [] = Some []"
| "mapMedia (m # ms) =
     (case rewriteMedia m of
        None \<Rightarrow> None
      | Some m' \<Rightarrow> (case mapMedia ms of None \<Rightarrow> None | Some ms' \<Rightarrow> Some (m' # ms')))"

definition rewriteParsed :: "session \<Rightarrow> session option" where
  "rewriteParsed parsed =
     (case media parsed of
        None \<Rightarrow> None
      | Some ms \<Rightarrow>
          (case mapMedia ms of
             None \<Rightarrow> None
           | Some ms' \<Rightarrow> Some (parsed\<lparr>media := Some ms'\<rparr>)))"

text \<open>
  \<^verbatim>\<open>rewriteSdp\<close>. \<open>parse\<close> and \<open>write\<close> stand for \<^verbatim>\<open>sdpTransform.parse\<close> and
  \<^verbatim>\<open>sdpTransform.write\<close>; \<open>None\<close> is a call that raises. Everything is inside one
  \<^verbatim>\<open>try\<close>, whose \<^verbatim>\<open>catch\<close> returns the body it was given.
\<close>

definition rewriteSdp ::
  "(jsstring \<Rightarrow> session option) \<Rightarrow> (session \<Rightarrow> jsstring option) \<Rightarrow> jsstring \<Rightarrow> jsstring" where
  "rewriteSdp parse write sdp =
     (case parse sdp of
        None \<Rightarrow> sdp
      | Some parsed \<Rightarrow>
          (case rewriteParsed parsed of
             None \<Rightarrow> sdp
           | Some rewritten \<Rightarrow>
               (case write rewritten of None \<Rightarrow> sdp | Some out \<Rightarrow> out)))"

section \<open>SIP messages\<close>

record name_addr =
  na_name :: "string option"
  na_uri :: string
  na_params :: "(string \<times> string) list option"

text \<open>A challenge as it stands in a \<^verbatim>\<open>WWW-Authenticate\<close> or \<^verbatim>\<open>Proxy-Authenticate\<close> header.\<close>

record challenge =
  ch_realm :: "string option"
  ch_nonce :: "string option"
  ch_algorithm :: "string option"
  ch_qop :: "string option"

text \<open>
  The header object of a message: the headers the gateway or the signer reads or
  writes, and the rest (\<open>hdr_other\<close>). \<open>None\<close> is a header that is absent.
\<close>

record headers =
  hdr_from :: "name_addr option"
  hdr_to :: "name_addr option"
  hdr_contact :: "name_addr list option"
  hdr_content_length :: "jsval option"
  hdr_authorization :: "string option"
  hdr_proxy_authorization :: "string option"
  hdr_www_authenticate :: "challenge option"
  hdr_proxy_authenticate :: "challenge option"
  hdr_other :: "(string \<times> string) list"

text \<open>
  A request and a response, as the \<^verbatim>\<open>sip\<close> package parses them: a header object is
  always there, and the From and To headers are objects of their own. \<open>rq_method\<close> is
  \<^verbatim>\<open>rq.method\<close>.
\<close>

record request =
  rq_method :: string
  uri :: string
  headers :: headers
  content :: "jsstring option"

record response =
  status :: jsval
  reason :: string
  rs_headers :: headers
  rs_content :: "jsstring option"

text \<open>
  What is handed to \<^verbatim>\<open>proxy.send\<close>: a request, a response received from downstream, or
  the response that \<^verbatim>\<open>sip.makeResponse(rq, status, reason)\<close> builds, kept as the call.
\<close>

datatype message =
  Request request
| Response response
| MadeResponse request int string

text \<open>
  One call of \<^verbatim>\<open>proxy.send\<close>; the flag tells whether \<^verbatim>\<open>defaultProxyCallback\<close> was passed
  with the message. The proxy sends a request on to its request-URI and a response back
  to where the request came from.
\<close>

datatype action = ProxySend message bool

fun sends_request :: "action \<Rightarrow> bool" where
  "sends_request (ProxySend (Request _) _) = True"
| "sends_request _ = False"

fun sends_response :: "action \<Rightarrow> bool" where
  "sends_response (ProxySend (Request _) _) = False"
| "sends_response _ = True"

section \<open>Configuration\<close>

text \<open>
  The constants read from the environment, after their \<^verbatim>\<open>|| ''\<close> defaults;
  \<open>PUBLIC_IP\<close> is the raw variable, read in the handler.
\<close>

record config =
  META_USER :: string
  TWILIO_USER :: string
  TWILIO_PASS :: string
  TWILIO_DOMAIN :: string
  TWILIO_DEST :: string
  PUBLIC_IP :: "string option"

record credentials =
  cr_user :: string
  cr_realm :: string
  cr_password :: string

definition credentialsTwilio :: "config \<Rightarrow> credentials" where
  "credentialsTwilio cfg =
     \<lparr>cr_user = TWILIO_USER cfg, cr_realm = ''sip.twilio.com'', cr_password = TWILIO_PASS cfg\<rparr>"

section \<open>The request handler\<close>

text \<open>
  \<^verbatim>\<open>Buffer.byteLength(s)\<close>: the length of \<open>s\<close> in UTF-8. A code unit below \<open>0x80\<close> is one
  byte, below \<open>0x800\<close> two; a high surrogate followed by a low one is a pair of four
  bytes; every other unit, a lone surrogate too, is three.
\<close>

fun byteLength :: "jsstring \<Rightarrow> nat" where
  "byteLength [] = 0"
| "byteLength [c] = (if c < 0x80 then 1 else if c < 0x800 then 2 else 3)"
| "byteLength (c # d # cs) =
     (if c < 0x80 then 1 + byteLength (d # cs)
      else if c < 0x800 then 2 + byteLength (d # cs)
      else if 0xD800 \<le> c \<and> c \<le> 0xDBFF \<and> 0xDC00 \<le> d \<and> d \<le> 0xDFFF then 4 + byteLength cs
      else 3 + byteLength (d # cs))"

text \<open>
  The bytes themselves, as Node writes the string into a buffer: one code unit, or a
  surrogate pair taken as the code point it stands for; a lone surrogate is written as
  U+FFFD, the bytes \<open>EF BF BD\<close>.
\<close>

definition utf8Unit :: "16 word \<Rightarrow> 8 word list" where
  "utf8Unit c =
     (if c < 0x80 then [ucast c]
      else if c < 0x800 then [0xC0 OR ucast (drop_bit 6 c), 0x80 OR ucast (c AND 0x3F)]
      else if 0xD800 \<le> c \<and> c \<le> 0xDFFF then [0xEF, 0xBF, 0xBD]
      else [0xE0 OR ucast (drop_bit 12 c), 0x80 OR ucast (drop_bit 6 c AND 0x3F),
            0x80 OR ucast (c AND 0x3F)])"

definition utf8Pair :: "16 word \<Rightarrow> 16 word \<Rightarrow> 8 word list" where
  "utf8Pair c d =
     (let cp = (0x10000 :: 32 word) + push_bit 10 (ucast (c - 0xD800)) + ucast (d - 0xDC00)
      in [0xF0 OR ucast (drop_bit 18 cp), 0x80 OR ucast (drop_bit 12 cp AND 0x3F),
          0x80 OR ucast (drop_bit 6 cp AND 0x3F), 0x80 OR ucast (cp AND 0x3F)])"

fun utf8 :: "jsstring \<Rightarrow> 8 word list" where
  "utf8 [] = []"
| "utf8 [c] = utf8Unit c"
| "utf8 (c # d # cs) =
     (if 0xD800 \<le> c \<and> c \<le> 0xDBFF \<and> 0xDC00 \<le> d \<and> d \<le> 0xDFFF
      then utf8Pair c d @ utf8 cs
      else utf8Unit c @ utf8 (d # cs))"

text \<open>\<^verbatim>\<open>n.toString()\<close> of a non-negative integer: its decimal digits.\<close>

function toString :: "nat \<Rightarrow> string" where
  "toString n =
     (if n < 10 then [char_of (48 + n)] else toString (n div 10) @ [char_of (48 + n mod 10)])"
  by pat_completeness auto
termination
  by (relation "measure (\<lambda>n. n)") auto

declare toString.simps [simp del]

definition destUri :: "config \<Rightarrow> string" where
  "destUri cfg = ''sip:'' @ TWILIO_DEST cfg @ ''@'' @ TWILIO_DOMAIN cfg"

definition contactUri :: "config \<Rightarrow> string" where
  "contactUri cfg =
     ''sip:'' @ META_USER cfg @ ''@'' @
       (case PUBLIC_IP cfg of None \<Rightarrow> ''example.com''
        | Some h \<Rightarrow> if h = [] then ''example.com'' else h)"

text \<open>Lines 93 to 97: an empty body is falsy, as an absent one.\<close>

definition rewriteContent ::
  "(jsstring \<Rightarrow> session option) \<Rightarrow> (session \<Rightarrow> jsstring option) \<Rightarrow> request \<Rightarrow> request" where
  "rewriteContent parse write rq =
     (case content rq of
        None \<Rightarrow> rq
      | Some c \<Rightarrow>
          if c = [] then rq
          else
            let newSdp = rewriteSdp parse write c
            in rq\<lparr>content := Some newSdp,
                  headers := (headers rq)
                    \<lparr>hdr_content_length := Some (JStr (toString (byteLength newSdp)))\<rparr>\<rparr>)"

text \<open>Lines 99 to 109: the request-URI, the To header and the Contact header.\<close>

definition retarget :: "config \<Rightarrow> request \<Rightarrow> request" where
  "retarget cfg rq =
     (let h = headers rq;
          to' = (case hdr_to h of
                   Some t \<Rightarrow> t\<lparr>na_uri := destUri cfg\<rparr>
                 | None \<Rightarrow> \<lparr>na_name = None, na_uri = destUri cfg, na_params = None\<rparr>);
          contact' = [\<lparr>na_name = None, na_uri = contactUri cfg, na_params = None\<rparr>]
      in rq\<lparr>uri := destUri cfg,
            headers := h\<lparr>hdr_to := Some to', hdr_contact := Some contact'\<rparr>\<rparr>)"

text \<open>
  \<^verbatim>\<open>onIncomingRequest\<close>: the calls of \<^verbatim>\<open>proxy.send\<close> it makes, in order. On a message of
  this type no statement of its \<^verbatim>\<open>try\<close> block raises (\<^verbatim>\<open>rewriteSdp\<close> catches its own
  faults, and the calls into the \<^verbatim>\<open>sip\<close> package are recorded, not run), so its \<^verbatim>\<open>catch\<close>
  branch is not entered. The callback passed with an INVITE runs later, on a response,
  when the \<^verbatim>\<open>try\<close> block has long been left.
\<close>

definition onIncomingRequest ::
  "config \<Rightarrow> (jsstring \<Rightarrow> session option) \<Rightarrow> (session \<Rightarrow> jsstring option) \<Rightarrow> request
     \<Rightarrow> action list" where
  "onIncomingRequest cfg parse write rq =
     (if rq_method rq = ''INVITE'' then
        [ProxySend (Request (retarget cfg (rewriteContent parse write rq))) True]
      else if rq_method rq = ''ACK'' \<or> rq_method rq = ''CANCEL'' \<or> rq_method rq = ''BYE''
              \<or> rq_method rq = ''PRACK'' \<or> rq_method rq = ''UPDATE'' then
        [ProxySend (Request rq) False]
      else
        [ProxySend (MadeResponse rq 405 ''Method Not Allowed'') False])"

section \<open>The response callback\<close>

text \<open>
  The digest session \<^verbatim>\<open>sessionTwilio\<close>: one object for the whole process, empty at the
  start, changed only by \<^verbatim>\<open>digest.signRequest\<close>.
\<close>

record auth_session =
  as_realm :: "string option"
  as_nonce :: "string option"
  as_nc :: nat
  as_cnonce :: "string option"
  as_algorithm :: "string option"
  as_qop :: "string option"

definition sessionTwilio :: auth_session where
  "sessionTwilio =
     \<lparr>as_realm = None, as_nonce = None, as_nc = 0, as_cnonce = None, as_algorithm = None,
      as_qop = None\<rparr>"

text \<open>
  A call of \<^verbatim>\<open>digest.signRequest(session, rq, rs, credentials)\<close> changes the session and
  the request in place and either returns or raises; both leave the two objects in
  some state. Its return value is not used by the gateway.
\<close>

datatype sign_result =
  Signed auth_session request
| SignRaised auth_session request

type_synonym signer = "auth_session \<Rightarrow> request \<Rightarrow> response \<Rightarrow> credentials \<Rightarrow> sign_result"

text \<open>
  What one run of \<^verbatim>\<open>defaultProxyCallback\<close> leaves: the calls of \<^verbatim>\<open>proxy.send\<close> it made,
  whether an exception left it, and the session and the request afterwards.
\<close>

record cb_result =
  cb_sent :: "action list"
  cb_uncaught :: bool
  cb_session :: auth_session
  cb_rq :: request

definition defaultProxyCallback ::
  "signer \<Rightarrow> credentials \<Rightarrow> auth_session \<Rightarrow> request \<Rightarrow> response \<Rightarrow> cb_result" where
  "defaultProxyCallback sign creds sess rq rs =
     (if status rs = JNum 401 \<or> status rs = JNum 407 then
        (case sign sess rq rs creds of
           Signed sess' rq' \<Rightarrow>
             \<lparr>cb_sent = [ProxySend (Request rq') False], cb_uncaught = False,
              cb_session = sess', cb_rq = rq'\<rparr>
         | SignRaised sess' rq' \<Rightarrow>
             \<lparr>cb_sent = [], cb_uncaught = True, cb_session = sess', cb_rq = rq'\<rparr>)
      else
        \<lparr>cb_sent = [ProxySend (Response rs) False], cb_uncaught = False,
         cb_session = sess, cb_rq = rq\<rparr>)"

text \<open>
  Who is given the responses to a request: \<^verbatim>\<open>proxy.send(rq, callback)\<close> hands them to
  the callback passed with the request, \<^verbatim>\<open>proxy.send(rq)\<close> leaves them to the \<^verbatim>\<open>sip\<close>
  package's own callback. The INVITE is sent with \<^verbatim>\<open>defaultProxyCallback\<close> (line 112);
  the signed request is sent again without it (line 118).
\<close>

datatype handler = GatewayCallback | PackageCallback

text \<open>The handler of the responses still to come, after some calls of \<^verbatim>\<open>proxy.send\<close>.\<close>

fun handlerAfter :: "handler \<Rightarrow> action list \<Rightarrow> handler" where
  "handlerAfter h [] = h"
| "handlerAfter h (ProxySend (Request _) cb # as) =
     handlerAfter (if cb then GatewayCallback else PackageCallback) as"
| "handlerAfter h (_ # as) = handlerAfter h as"

text \<open>
  The responses of one transaction, in the order they arrive, each given to the handler
  of the request it answers: the calls of \<^verbatim>\<open>proxy.send\<close> that result. What the package's
  own callback does with a response is the parameter \<open>pkg\<close>.
\<close>

fun runTransaction ::
  "signer \<Rightarrow> credentials \<Rightarrow> (response \<Rightarrow> action list) \<Rightarrow> handler \<Rightarrow> auth_session
     \<Rightarrow> request \<Rightarrow> response list \<Rightarrow> action list" where
  "runTransaction sign creds pkg h sess rq [] = []"
| "runTransaction sign creds pkg PackageCallback sess rq (rs # rest) =
     pkg rs @ runTransaction sign creds pkg PackageCallback sess rq rest"
| "runTransaction sign creds pkg GatewayCallback sess rq (rs # rest) =
     (let r = defaultProxyCallback sign creds sess rq rs
      in cb_sent r @
         runTransaction sign creds pkg (handlerAfter GatewayCallback (cb_sent r))
           (cb_session r) (cb_rq r) rest)"

section \<open>The digest signer of the specification\<close>

definition challengeOf :: "response \<Rightarrow> challenge option" where
  "challengeOf rs =
     (if status rs = JNum 407 then hdr_proxy_authenticate (rs_headers rs)
      else hdr_www_authenticate (rs_headers rs))"

text \<open>
  Modelled from the spec: \<^verbatim>\<open>digest.signRequest\<close> belongs to the \<^verbatim>\<open>sip\<close> package and is
  not among the sources; this is the transition of the specification's section 4.3.
  Step 1 reads realm, nonce, algorithm and quality-of-protection from the challenge
  header, and fails when the header, its nonce or its realm is missing. Step 2 counts
  the nonce up when the stored nonce is the challenge's, and otherwise adopts the new
  nonce, sets the count to 1 and takes a fresh client nonce. Step 3, the keyed hash, is
  the parameter \<open>digestResponse\<close>; the fresh client nonce is the parameter \<open>fresh\<close>.
  Step 4 attaches the value as the Authorization header, or as Proxy-Authorization for a
  407. A failure is an exception, the only way the gateway could learn of it.
\<close>

definition signRequest_spec ::
  "(credentials \<Rightarrow> auth_session \<Rightarrow> request \<Rightarrow> string) \<Rightarrow> string \<Rightarrow> signer" where
  "signRequest_spec digestResponse fresh sess rq rs creds =
     (case challengeOf rs of
        None \<Rightarrow> SignRaised sess rq
      | Some ch \<Rightarrow>
          (case ch_realm ch of
             None \<Rightarrow> SignRaised sess rq
           | Some realm \<Rightarrow>
               (case ch_nonce ch of
                  None \<Rightarrow> SignRaised sess rq
                | Some nonce \<Rightarrow>
                    let sess' =
                          (if as_nonce sess = Some nonce then sess\<lparr>as_nc := as_nc sess + 1\<rparr>
                           else sess\<lparr>as_realm := Some realm, as_nonce := Some nonce, as_nc := 1,
                                     as_cnonce := Some fresh, as_algorithm := ch_algorithm ch,
                                     as_qop := ch_qop ch\<rparr>);
                        v = digestResponse creds sess' rq;
                        h = headers rq
                    in Signed sess'
                         (rq\<lparr>headers :=
                               (if status rs = JNum 407 then h\<lparr>hdr_proxy_authorization := Some v\<rparr>
                                else h\<lparr>hdr_authorization := Some v\<rparr>)\<rparr>))))"

section \<open>Reading the rewritten object\<close>

definition mediaOf :: "session \<Rightarrow> media list" where
  "mediaOf s = (case media s of None \<Rightarrow> [] | Some ms \<Rightarrow> ms)"

definition rtpOf :: "media \<Rightarrow> rtp_entry list" where
  "rtpOf m = (case rtp m of None \<Rightarrow> [] | Some rs \<Rightarrow> rs)"

definition fmtpOf :: "media \<Rightarrow> fmtp_entry list" where
  "fmtpOf m = (case fmtp m of None \<Rightarrow> [] | Some fs \<Rightarrow> fs)"

section \<open>Example inputs\<close>

text \<open>
  An audio media description offering Opus, PCMU and, on payload 101, telephone-event
  at the clock rate of Opus with the format parameter \<^verbatim>\<open>0-15\<close>, as \<^verbatim>\<open>sdp-transform\<close>
  parses the lines \<^verbatim>\<open>m=audio 9 RTP/AVP 111 0 101\<close>, \<^verbatim>\<open>a=rtpmap:111 opus/48000/2\<close>,
  \<^verbatim>\<open>a=rtpmap:0 PCMU/8000\<close>, \<^verbatim>\<open>a=rtpmap:101 telephone-event/48000\<close>,
  \<^verbatim>\<open>a=fmtp:111 useinbandfec=1\<close>, \<^verbatim>\<open>a=fmtp:101 0-15\<close> and \<^verbatim>\<open>a=rtcp:9 IN IP4 0.0.0.0\<close>.
\<close>

definition example_audio :: media where
  "example_audio =
     \<lparr>mtype = JStr ''audio'', payloads = JStr ''111 0 101'',
      rtp = Some [\<lparr>rtp_payload = JNum 111, rtp_codec = JStr ''opus'', rtp_rate = JNum 48000,
                   rtp_encoding = JNum 2\<rparr>,
                  \<lparr>rtp_payload = JNum 0, rtp_codec = JStr ''PCMU'', rtp_rate = JNum 8000,
                   rtp_encoding = JUndefined\<rparr>,
                  \<lparr>rtp_payload = JNum 101, rtp_codec = JStr ''telephone-event'',
                   rtp_rate = JNum 48000, rtp_encoding = JUndefined\<rparr>],
      fmtp = Some [\<lparr>fmtp_payload = JNum 111, fmtp_config = JStr ''useinbandfec=1''\<rparr>,
                   \<lparr>fmtp_payload = JNum 101, fmtp_config = JStr ''0-15''\<rparr>],
      rtcp = Some \<lparr>rtcp_port = JNum 9, rtcp_netType = JStr ''IN'', rtcp_ipVer = JNum 4,
                   rtcp_address = JStr ''0.0.0.0''\<rparr>,
      m_other = []\<rparr>"

definition example_session :: session where
  "example_session = \<lparr>media = Some [example_audio], s_other = []\<rparr>"

definition example_rewritten :: session where
  "example_rewritten =
     \<lparr>media = Some
        [\<lparr>mtype = JStr ''audio'', payloads = JStr ''0 8 101'',
          rtp = Some [\<lparr>rtp_payload = JNum 0, rtp_codec = JStr ''PCMU'', rtp_rate = JNum 8000,
                       rtp_encoding = JUndefined\<rparr>,
                      \<lparr>rtp_payload = JNum 101, rtp_codec = JStr ''telephone-event'',
                       rtp_rate = JNum 48000, rtp_encoding = JUndefined\<rparr>],
          fmtp = Some [\<lparr>fmtp_payload = JNum 101, fmtp_config = JStr ''0-15''\<rparr>],
          rtcp = None, m_other = []\<rparr>],
      s_other = []\<rparr>"

text \<open>
  Two bodies, and a stand-in for the SDP package that knows only them: the first parses
  to \<open>example_session\<close>, the second is what is written for \<open>example_rewritten\<close> and
  parses back to it; the stand-in knows no other body.
\<close>

definition example_body :: jsstring where
  "example_body = [0x76, 0x3D, 0x30]"

definition example_out :: jsstring where
  "example_out = [0x76, 0x3D, 0x30, 0x0D, 0x0A]"

definition example_parse :: "jsstring \<Rightarrow> session option" where
  "example_parse b =
     (if b = example_body then Some example_session
      else if b = example_out then Some example_rewritten
      else None)"

definition example_write :: "session \<Rightarrow> jsstring option" where
  "example_write s = (if s = example_rewritten then Some example_out else None)"

text \<open>The destination of the specification's example, and a request from a caller.\<close>

definition example_config :: config where
  "example_config =
     \<lparr>META_USER = ''1234567890'', TWILIO_USER = ''u'', TWILIO_PASS = ''p'',
      TWILIO_DOMAIN = ''nonocard.sip.twilio.com'', TWILIO_DEST = ''+5215541655565'',
      PUBLIC_IP = None\<rparr>"

definition example_headers :: headers where
  "example_headers =
     \<lparr>hdr_from = Some \<lparr>na_name = Some ''Caller'', na_uri = ''sip:caller@wa.meta.vc'',
                        na_params = Some [(''tag'', ''a1'')]\<rparr>,
      hdr_to = Some \<lparr>na_name = None, na_uri = ''sip:gateway@example.org'', na_params = None\<rparr>,
      hdr_contact = None, hdr_content_length = Some (JNum 3), hdr_authorization = None,
      hdr_proxy_authorization = None, hdr_www_authenticate = None,
      hdr_proxy_authenticate = None, hdr_other = [(''call-id'', ''c1'')]\<rparr>"

definition example_request :: "string \<Rightarrow> request" where
  "example_request m =
     \<lparr>rq_method = m, uri = ''sip:gateway@example.org'', headers = example_headers,
      content = Some example_body\<rparr>"

text \<open>
  The challenge of the specification's example (realm \<^verbatim>\<open>sip.twilio.com\<close>, nonce
  \<^verbatim>\<open>abc123\<close>, qop \<^verbatim>\<open>auth\<close>), a stand-in for the keyed hash, and the specification's
  signer with it.
\<close>

definition example_challenge :: response where
  "example_challenge =
     \<lparr>status = JNum 401, reason = ''Unauthorized'',
      rs_headers = example_headers
        \<lparr>hdr_www_authenticate :=
           Some \<lparr>ch_realm = Some ''sip.twilio.com'', ch_nonce = Some ''abc123'',
                 ch_algorithm = None, ch_qop = Some ''auth''\<rparr>\<rparr>,
      rs_content = None\<rparr>"

definition example_digest :: "credentials \<Rightarrow> auth_session \<Rightarrow> request \<Rightarrow> string" where
  "example_digest creds sess rq =
     cr_user creds @ '':'' @ (case as_nonce sess of None \<Rightarrow> [] | Some n \<Rightarrow> n)"

definition example_signer :: signer where
  "example_signer = signRequest_spec example_digest ''0a4f113b''"

definition example_credentials :: credentials where
  "example_credentials = credentialsTwilio example_config"

text \<open>The session after one challenge with nonce \<^verbatim>\<open>abc123\<close> has been signed.\<close>

definition example_used_session :: auth_session where
  "example_used_session =
     \<lparr>as_realm = Some ''sip.twilio.com'', as_nonce = Some ''abc123'', as_nc = 1,
      as_cnonce = Some ''0a4f113b'', as_algorithm = None, as_qop = Some ''auth''\<rparr>"

text \<open>
  A provisional response, and the \<^verbatim>\<open>sip\<close> package's own callback as it acts on a
  response to a request sent without a callback: it passes the response on towards the
  caller. (On the way it takes the proxy's own Via header off; the Via headers are not
  among the headers named here.)
\<close>

definition example_trying :: response where
  "example_trying =
     \<lparr>status = JNum 100, reason = ''Trying'', rs_headers = example_headers, rs_content = None\<rparr>"

definition example_package_callback :: "response \<Rightarrow> action list" where
  "example_package_callback rs = [ProxySend (Response rs) False]"

subsection \<open>Bodies, and what the SDP package makes of them\<close>

text \<open>The code units of a text of one-byte characters, and the line end.\<close>

definition units :: "string \<Rightarrow> jsstring" where
  "units s = map (\<lambda>c. of_nat (of_char c)) s"

definition crlf :: jsstring where
  "crlf = [0x0D, 0x0A]"

text \<open>
  A body that is no SDP at all. The package's \<^verbatim>\<open>parse\<close> does not raise on it: it skips
  every line it does not understand and returns a session with an empty media list,
  and \<^verbatim>\<open>write\<close> renders that with the two lines it always writes.
\<close>

definition garbage_body :: jsstring where
  "garbage_body = units ''garbage''"

definition garbage_parsed :: session where
  "garbage_parsed = \<lparr>media = Some [], s_other = []\<rparr>"

definition garbage_out :: jsstring where
  "garbage_out = units ''v=0'' @ crlf @ units ''s= '' @ crlf"

text \<open>
  An offer of Opus alone, with a session name that is not ASCII (\<^verbatim>\<open>caf\<close> and U+00E9),
  the object it parses to, and the body written for the rewritten object, which parses
  back to that object.
\<close>

definition offer_body :: jsstring where
  "offer_body =
     units ''v=0'' @ crlf @ units ''s=caf'' @ [0xE9] @ crlf @
     units ''m=audio 9 RTP/AVP 111'' @ crlf @
     units ''a=rtpmap:111 opus/48000/2'' @ crlf"

definition offer_parsed :: session where
  "offer_parsed =
     \<lparr>media = Some
        [\<lparr>mtype = JStr ''audio'', payloads = JNum 111,
          rtp = Some [\<lparr>rtp_payload = JNum 111, rtp_codec = JStr ''opus'',
                       rtp_rate = JNum 48000, rtp_encoding = JNum 2\<rparr>],
          fmtp = Some [], rtcp = None,
          m_other = [(''port'', JNum 9), (''protocol'', JStr ''RTP/AVP'')]\<rparr>],
      s_other = [(''version'', JNum 0), (''name'', JStr (''caf'' @ [CHR 0xE9]))]\<rparr>"

definition offer_rewritten :: session where
  "offer_rewritten =
     \<lparr>media = Some
        [\<lparr>mtype = JStr ''audio'', payloads = JStr ''0 8 101'',
          rtp = Some [\<lparr>rtp_payload = JNum 101, rtp_codec = JStr ''telephone-event'',
                       rtp_rate = JNum 8000, rtp_encoding = JUndefined\<rparr>],
          fmtp = Some [\<lparr>fmtp_payload = JNum 101, fmtp_config = JStr ''0-16''\<rparr>],
          rtcp = None,
          m_other = [(''port'', JNum 9), (''protocol'', JStr ''RTP/AVP'')]\<rparr>],
      s_other = [(''version'', JNum 0), (''name'', JStr (''caf'' @ [CHR 0xE9]))]\<rparr>"

definition offer_out :: jsstring where
  "offer_out =
     units ''v=0'' @ crlf @ units ''s=caf'' @ [0xE9] @ crlf @
     units ''m=audio 9 RTP/AVP 0 8 101'' @ crlf @
     units ''a=rtpmap:101 telephone-event/8000'' @ crlf @
     units ''a=fmtp:101 0-16'' @ crlf"

text \<open>
  A body whose origin line has a session version of 22 digits. The package keeps such a
  number as text when it parses, and writes it with \<^verbatim>\<open>Number(...)\<close>, which prints
  \<^verbatim>\<open>1e+21\<close>; the origin line it has written no longer matches its own pattern for origin
  lines (digits only), so the next parse drops the line.
\<close>

definition big_body :: jsstring where
  "big_body =
     units ''v=0'' @ crlf @
     units ''o=- 1 1000000000000000000000 IN IP4 127.0.0.1'' @ crlf @
     units ''s=-'' @ crlf"

definition big_parsed :: session where
  "big_parsed =
     \<lparr>media = Some [],
      s_other = [(''version'', JNum 0), (''origin.username'', JStr ''-''),
                 (''origin.sessionId'', JNum 1),
                 (''origin.sessionVersion'', JStr ''1000000000000000000000''),
                 (''origin.netType'', JStr ''IN''), (''origin.ipVer'', JNum 4),
                 (''origin.address'', JStr ''127.0.0.1''), (''name'', JStr ''-'')]\<rparr>"

definition big_out :: jsstring where
  "big_out =
     units ''v=0'' @ crlf @ units ''o=- 1 1e+21 IN IP4 127.0.0.1'' @ crlf @
     units ''s=-'' @ crlf"

definition big_reparsed :: session where
  "big_reparsed =
     \<lparr>media = Some [], s_other = [(''version'', JNum 0), (''name'', JStr ''-'')]\<rparr>"

definition big_out2 :: jsstring where
  "big_out2 = units ''v=0'' @ crlf @ units ''s=-'' @ crlf"

text \<open>
  The answers of \<^verbatim>\<open>sdpTransform.parse\<close> and \<^verbatim>\<open>sdpTransform.write\<close> on these bodies and
  objects, as tables. On anything else the tables are silent: their \<open>None\<close> there is
  not a statement about the package, and nothing below reads it.
\<close>

definition package_parse :: "jsstring \<Rightarrow> session option" where
  "package_parse b =
     (if b = garbage_body then Some garbage_parsed
      else if b = offer_body then Some offer_parsed
      else if b = offer_out then Some offer_rewritten
      else if b = big_body then Some big_parsed
      else if b = big_out then Some big_reparsed
      else if b = big_out2 then Some big_reparsed
      else None)"

definition package_write :: "session \<Rightarrow> jsstring option" where
  "package_write s =
     (if s = garbage_parsed then Some garbage_out
      else if s = offer_rewritten then Some offer_out
      else if s = big_parsed then Some big_out
      else if s = big_reparsed then Some big_out2
      else None)"

text \<open>An INVITE that carries the offer.\<close>

definition offer_invite :: request where
  "offer_invite =
     \<lparr>rq_method = ''INVITE'', uri = ''sip:gateway@example.org'', headers = example_headers,
      content = Some offer_body\<rparr>"

section \<open>Properties of \<^verbatim>\<open>rewriteSdp\<close>\<close>

lemma includes_allowed_iff:
  "includes_allowed v = (v = JNum 0 \<or> v = JNum 8 \<or> v = JNum 101)"
  by (cases v) (auto simp: allowedPayloads_def)

lemma includes_parsed_iff:
  "includes_parsed v = (\<exists>n\<in>{0, 8, 101}. parseInt v = Some n)"
  by (auto simp: includes_parsed_def allowedPayloads_def split: option.splits)

lemma find_None_conv: "(find P xs = None) = (\<forall>x\<in>set xs. \<not> P x)"
  by (induction xs) auto

text \<open>What the callback returns for an audio description, with the two lists named.\<close>

lemma rewriteMedia_audio_eq:
  assumes au: "mtype m = JStr ''audio''" and rs: "rtp m = Some rs"
    and rs1: "rs1 = filter (\<lambda>r. includes_allowed (rtp_payload r)) rs"
    and rs2: "rs2 = (if find (\<lambda>r. rtp_payload r = JNum 101) rs1 = None
                     then rs1 @ [telephone_event_rtp] else rs1)"
    and fs1: "fs1 = filter (\<lambda>f. includes_parsed (fmtp_payload f)) (fmtpOf m)"
    and fs2: "fs2 = (if find (\<lambda>f. parseInt (fmtp_payload f) = Some 101) fs1 = None
                     then fs1 @ [telephone_event_fmtp] else fs1)"
  shows "rewriteMedia m
           = Some (m\<lparr>payloads := JStr ''0 8 101'', rtp := Some rs2, fmtp := Some fs2,
                     rtcp := None\<rparr>)"
  using au rs by (simp add: rewriteMedia_def rs1 rs2 fs1 fs2 fmtpOf_def Let_def)

lemma rewriteMedia_audio_rtp:
  assumes "mtype m = JStr ''audio''" and "rewriteMedia m = Some m'"
  shows "\<exists>rs. rtp m = Some rs"
  using assms by (auto simp: rewriteMedia_def split: option.splits)

lemma rewriteMedia_audio:
  assumes au: "mtype m = JStr ''audio''" and rw: "rewriteMedia m = Some m'"
  shows "\<exists>rs' fs'. payloads m' = JStr ''0 8 101'' \<and> rtp m' = Some rs' \<and> fmtp m' = Some fs' \<and>
           (\<forall>r\<in>set rs'. rtp_payload r \<in> {JNum 0, JNum 8, JNum 101} \<and>
                         (r \<in> set (rtpOf m) \<or> r = telephone_event_rtp)) \<and>
           (\<forall>r\<in>set (rtpOf m). rtp_payload r \<in> {JNum 0, JNum 8, JNum 101} \<longrightarrow> r \<in> set rs') \<and>
           (\<exists>r\<in>set rs'. rtp_payload r = JNum 101) \<and>
           ((\<forall>r\<in>set (rtpOf m). rtp_payload r \<noteq> JNum 101) \<longrightarrow> telephone_event_rtp \<in> set rs') \<and>
           (\<forall>f\<in>set fs'. (\<exists>n\<in>{0, 8, 101}. parseInt (fmtp_payload f) = Some n) \<and>
                         (f \<in> set (fmtpOf m) \<or> f = telephone_event_fmtp)) \<and>
           (\<forall>f\<in>set (fmtpOf m).
              (\<exists>n\<in>{0, 8, 101}. parseInt (fmtp_payload f) = Some n) \<longrightarrow> f \<in> set fs') \<and>
           (\<exists>f\<in>set fs'. parseInt (fmtp_payload f) = Some 101) \<and>
           ((\<forall>f\<in>set (fmtpOf m). parseInt (fmtp_payload f) \<noteq> Some 101)
              \<longrightarrow> telephone_event_fmtp \<in> set fs')"
proof -
  from au rw obtain rs where rs: "rtp m = Some rs"
    using rewriteMedia_audio_rtp by blast
  define rs1 where "rs1 = filter (\<lambda>r. includes_allowed (rtp_payload r)) rs"
  define rs2 where "rs2 = (if find (\<lambda>r. rtp_payload r = JNum 101) rs1 = None
                           then rs1 @ [telephone_event_rtp] else rs1)"
  define fs1 where "fs1 = filter (\<lambda>f. includes_parsed (fmtp_payload f)) (fmtpOf m)"
  define fs2 where "fs2 = (if find (\<lambda>f. parseInt (fmtp_payload f) = Some 101) fs1 = None
                           then fs1 @ [telephone_event_fmtp] else fs1)"
  have "rewriteMedia m
          = Some (m\<lparr>payloads := JStr ''0 8 101'', rtp := Some rs2, fmtp := Some fs2,
                    rtcp := None\<rparr>)"
    using au rs rs1_def rs2_def fs1_def fs2_def by (rule rewriteMedia_audio_eq)
  with rw have m': "m' = m\<lparr>payloads := JStr ''0 8 101'', rtp := Some rs2, fmtp := Some fs2,
                              rtcp := None\<rparr>"
    by simp
  have rof: "rtpOf m = rs" by (simp add: rtpOf_def rs)
  have a1: "\<forall>r\<in>set rs2. rtp_payload r \<in> {JNum 0, JNum 8, JNum 101} \<and>
                          (r \<in> set (rtpOf m) \<or> r = telephone_event_rtp)"
    by (auto simp: rs2_def rs1_def rof includes_allowed_iff telephone_event_rtp_def)
  have a2: "\<forall>r\<in>set (rtpOf m). rtp_payload r \<in> {JNum 0, JNum 8, JNum 101} \<longrightarrow> r \<in> set rs2"
    by (auto simp: rs2_def rs1_def rof includes_allowed_iff)
  have a3: "\<exists>r\<in>set rs2. rtp_payload r = JNum 101"
    by (auto simp: rs2_def find_None_conv telephone_event_rtp_def)
  have a4: "(\<forall>r\<in>set (rtpOf m). rtp_payload r \<noteq> JNum 101) \<longrightarrow> telephone_event_rtp \<in> set rs2"
    by (auto simp: rs2_def rs1_def rof find_None_conv)
  have b1: "\<forall>f\<in>set fs2. (\<exists>n\<in>{0, 8, 101}. parseInt (fmtp_payload f) = Some n) \<and>
                          (f \<in> set (fmtpOf m) \<or> f = telephone_event_fmtp)"
    by (auto simp: fs2_def fs1_def includes_parsed_iff telephone_event_fmtp_def)
  have b2: "\<forall>f\<in>set (fmtpOf m).
              (\<exists>n\<in>{0, 8, 101}. parseInt (fmtp_payload f) = Some n) \<longrightarrow> f \<in> set fs2"
    by (auto simp: fs2_def fs1_def includes_parsed_iff)
  have b3: "\<exists>f\<in>set fs2. parseInt (fmtp_payload f) = Some 101"
    by (auto simp: fs2_def find_None_conv telephone_event_fmtp_def)
  have b4: "(\<forall>f\<in>set (fmtpOf m). parseInt (fmtp_payload f) \<noteq> Some 101)
              \<longrightarrow> telephone_event_fmtp \<in> set fs2"
    by (auto simp: fs2_def fs1_def find_None_conv)
  show ?thesis
    using a1 a2 a3 a4 b1 b2 b3 b4 by (simp add: m')
qed

text \<open>A description that the callback has returned is returned as it is.\<close>

lemma rewriteMedia_again:
  assumes rw: "rewriteMedia m = Some m'"
  shows "rewriteMedia m' = Some m'"
proof (cases "mtype m = JStr ''audio''")
  case False
  with rw show ?thesis by (simp add: rewriteMedia_def)
next
  case True
  from True rw obtain rs where rs: "rtp m = Some rs"
    using rewriteMedia_audio_rtp by blast
  define rs1 where "rs1 = filter (\<lambda>r. includes_allowed (rtp_payload r)) rs"
  define rs2 where "rs2 = (if find (\<lambda>r. rtp_payload r = JNum 101) rs1 = None
                           then rs1 @ [telephone_event_rtp] else rs1)"
  define fs1 where "fs1 = filter (\<lambda>f. includes_parsed (fmtp_payload f)) (fmtpOf m)"
  define fs2 where "fs2 = (if find (\<lambda>f. parseInt (fmtp_payload f) = Some 101) fs1 = None
                           then fs1 @ [telephone_event_fmtp] else fs1)"
  have "rewriteMedia m
          = Some (m\<lparr>payloads := JStr ''0 8 101'', rtp := Some rs2, fmtp := Some fs2,
                    rtcp := None\<rparr>)"
    using True rs rs1_def rs2_def fs1_def fs2_def by (rule rewriteMedia_audio_eq)
  with rw have m': "m' = m\<lparr>payloads := JStr ''0 8 101'', rtp := Some rs2, fmtp := Some fs2,
                              rtcp := None\<rparr>"
    by simp
  have r1: "filter (\<lambda>r. includes_allowed (rtp_payload r)) rs2 = rs2"
    by (simp add: rs2_def rs1_def telephone_event_rtp_def allowedPayloads_def)
  have r2: "find (\<lambda>r. rtp_payload r = JNum 101) rs2 \<noteq> None"
    by (auto simp: rs2_def find_None_conv telephone_event_rtp_def)
  have f1: "filter (\<lambda>f. includes_parsed (fmtp_payload f)) fs2 = fs2"
    by (simp add: fs2_def fs1_def telephone_event_fmtp_def allowedPayloads_def
        includes_parsed_def)
  have f2: "find (\<lambda>f. parseInt (fmtp_payload f) = Some 101) fs2 \<noteq> None"
    by (auto simp: fs2_def find_None_conv telephone_event_fmtp_def)
  show ?thesis
    using True r1 r2 f1 f2 by (simp add: m' rewriteMedia_def)
qed

lemma mapMedia_all2:
  "mapMedia ms = Some ms' \<Longrightarrow> list_all2 (\<lambda>m m'. rewriteMedia m = Some m') ms ms'"
  by (induction ms arbitrary: ms') (auto split: option.splits)

lemma mapMedia_again: "mapMedia ms = Some ms' \<Longrightarrow> mapMedia ms' = Some ms'"
  by (induction ms arbitrary: ms') (auto split: option.splits simp: rewriteMedia_again)

lemma rewriteParsed_again: "rewriteParsed p = Some q \<Longrightarrow> rewriteParsed q = Some q"
  by (auto simp: rewriteParsed_def mapMedia_again split: option.splits)

lemma example_session_rewritten: "rewriteParsed example_session = Some example_rewritten"
  by (simp add: rewriteParsed_def example_session_def example_audio_def example_rewritten_def
      rewriteMedia_def includes_parsed_def allowedPayloads_def)

lemma example_body_rewritten:
  "rewriteSdp example_parse example_write example_body = example_out"
  by (simp add: rewriteSdp_def example_parse_def example_session_rewritten example_write_def)

text \<open>
  Claim C1, as amended. When the body parses, the rewrite raises nothing and the object
  is written, \<^verbatim>\<open>rewriteSdp\<close> returns what was written, and in the object handed to the
  writer every audio media description has the payload list \<^verbatim>\<open>0 8 101\<close>. Its rtp
  entries have payload 0, 8 or 101 and are the input's entries with such a payload,
  followed by the entry \<^verbatim>\<open>101 telephone-event/8000\<close> when the input had none for 101; so
  an entry for 101 is always there. Its fmtp entries are the input's entries whose
  payload parses to 0, 8 or 101, followed by \<^verbatim>\<open>101 0-16\<close> when the input had none for
  101; so a format parameter for 101 is always there. An entry for 101 that came with
  the input is kept as it came, with its own codec name, rate and parameter.
\<close>

theorem rewriteSdp_audio_negotiated:
  assumes p: "parse sdp = Some parsed"
    and r: "rewriteParsed parsed = Some rewritten"
    and w: "write rewritten = Some out"
  shows "rewriteSdp parse write sdp = out \<and>
    list_all2
      (\<lambda>m m'. mtype m = JStr ''audio'' \<longrightarrow>
         (\<exists>rs' fs'. payloads m' = JStr ''0 8 101'' \<and> rtp m' = Some rs' \<and> fmtp m' = Some fs' \<and>
           (\<forall>r\<in>set rs'. rtp_payload r \<in> {JNum 0, JNum 8, JNum 101} \<and>
                         (r \<in> set (rtpOf m) \<or> r = telephone_event_rtp)) \<and>
           (\<forall>r\<in>set (rtpOf m). rtp_payload r \<in> {JNum 0, JNum 8, JNum 101} \<longrightarrow> r \<in> set rs') \<and>
           (\<exists>r\<in>set rs'. rtp_payload r = JNum 101) \<and>
           ((\<forall>r\<in>set (rtpOf m). rtp_payload r \<noteq> JNum 101) \<longrightarrow> telephone_event_rtp \<in> set rs') \<and>
           (\<forall>f\<in>set fs'. (\<exists>n\<in>{0, 8, 101}. parseInt (fmtp_payload f) = Some n) \<and>
                         (f \<in> set (fmtpOf m) \<or> f = telephone_event_fmtp)) \<and>
           (\<forall>f\<in>set (fmtpOf m).
              (\<exists>n\<in>{0, 8, 101}. parseInt (fmtp_payload f) = Some n) \<longrightarrow> f \<in> set fs') \<and>
           (\<exists>f\<in>set fs'. parseInt (fmtp_payload f) = Some 101) \<and>
           ((\<forall>f\<in>set (fmtpOf m). parseInt (fmtp_payload f) \<noteq> Some 101)
              \<longrightarrow> telephone_event_fmtp \<in> set fs')))
      (mediaOf parsed) (mediaOf rewritten)"
proof -
  have out: "rewriteSdp parse write sdp = out"
    by (simp add: rewriteSdp_def p r w)
  from r obtain ms ms' where ms: "media parsed = Some ms" and mm: "mapMedia ms = Some ms'"
    and q: "rewritten = parsed\<lparr>media := Some ms'\<rparr>"
    by (auto simp: rewriteParsed_def split: option.splits)
  have "list_all2 (\<lambda>m m'. rewriteMedia m = Some m') (mediaOf parsed) (mediaOf rewritten)"
    using mapMedia_all2 [OF mm] by (simp add: mediaOf_def ms q)
  then have "list_all2
      (\<lambda>m m'. mtype m = JStr ''audio'' \<longrightarrow>
         (\<exists>rs' fs'. payloads m' = JStr ''0 8 101'' \<and> rtp m' = Some rs' \<and> fmtp m' = Some fs' \<and>
           (\<forall>r\<in>set rs'. rtp_payload r \<in> {JNum 0, JNum 8, JNum 101} \<and>
                         (r \<in> set (rtpOf m) \<or> r = telephone_event_rtp)) \<and>
           (\<forall>r\<in>set (rtpOf m). rtp_payload r \<in> {JNum 0, JNum 8, JNum 101} \<longrightarrow> r \<in> set rs') \<and>
           (\<exists>r\<in>set rs'. rtp_payload r = JNum 101) \<and>
           ((\<forall>r\<in>set (rtpOf m). rtp_payload r \<noteq> JNum 101) \<longrightarrow> telephone_event_rtp \<in> set rs') \<and>
           (\<forall>f\<in>set fs'. (\<exists>n\<in>{0, 8, 101}. parseInt (fmtp_payload f) = Some n) \<and>
                         (f \<in> set (fmtpOf m) \<or> f = telephone_event_fmtp)) \<and>
           (\<forall>f\<in>set (fmtpOf m).
              (\<exists>n\<in>{0, 8, 101}. parseInt (fmtp_payload f) = Some n) \<longrightarrow> f \<in> set fs') \<and>
           (\<exists>f\<in>set fs'. parseInt (fmtp_payload f) = Some 101) \<and>
           ((\<forall>f\<in>set (fmtpOf m). parseInt (fmtp_payload f) \<noteq> Some 101)
              \<longrightarrow> telephone_event_fmtp \<in> set fs')))
      (mediaOf parsed) (mediaOf rewritten)"
  proof (rule list_all2_mono)
    fix m m'
    assume "rewriteMedia m = Some m'"
    then show "mtype m = JStr ''audio'' \<longrightarrow>
         (\<exists>rs' fs'. payloads m' = JStr ''0 8 101'' \<and> rtp m' = Some rs' \<and> fmtp m' = Some fs' \<and>
           (\<forall>r\<in>set rs'. rtp_payload r \<in> {JNum 0, JNum 8, JNum 101} \<and>
                         (r \<in> set (rtpOf m) \<or> r = telephone_event_rtp)) \<and>
           (\<forall>r\<in>set (rtpOf m). rtp_payload r \<in> {JNum 0, JNum 8, JNum 101} \<longrightarrow> r \<in> set rs') \<and>
           (\<exists>r\<in>set rs'. rtp_payload r = JNum 101) \<and>
           ((\<forall>r\<in>set (rtpOf m). rtp_payload r \<noteq> JNum 101) \<longrightarrow> telephone_event_rtp \<in> set rs') \<and>
           (\<forall>f\<in>set fs'. (\<exists>n\<in>{0, 8, 101}. parseInt (fmtp_payload f) = Some n) \<and>
                         (f \<in> set (fmtpOf m) \<or> f = telephone_event_fmtp)) \<and>
           (\<forall>f\<in>set (fmtpOf m).
              (\<exists>n\<in>{0, 8, 101}. parseInt (fmtp_payload f) = Some n) \<longrightarrow> f \<in> set fs') \<and>
           (\<exists>f\<in>set fs'. parseInt (fmtp_payload f) = Some 101) \<and>
           ((\<forall>f\<in>set (fmtpOf m). parseInt (fmtp_payload f) \<noteq> Some 101)
              \<longrightarrow> telephone_event_fmtp \<in> set fs'))"
      by (intro impI) (rule rewriteMedia_audio)
  qed
  with out show ?thesis by (rule conjI)
qed

text \<open>
  The theorem at the example body: the three hypotheses hold there, the body is
  rewritten to the second body, and the one audio description of the result has the
  payload list \<^verbatim>\<open>0 8 101\<close>.
\<close>

theorem rewriteSdp_audio_negotiated_witness:
  "example_parse example_body = Some example_session \<and>
   rewriteParsed example_session = Some example_rewritten \<and>
   example_write example_rewritten = Some example_out \<and>
   rewriteSdp example_parse example_write example_body = example_out \<and>
   map payloads (mediaOf example_rewritten) = [JStr ''0 8 101'']"
proof -
  have p: "example_parse example_body = Some example_session"
    by (simp add: example_parse_def)
  have w: "example_write example_rewritten = Some example_out"
    by (simp add: example_write_def)
  have "rewriteSdp example_parse example_write example_body = example_out"
    using rewriteSdp_audio_negotiated
      [of example_parse example_body example_session example_rewritten example_write
        example_out, OF p example_session_rewritten w]
    by (rule conjunct1)
  moreover have "map payloads (mediaOf example_rewritten) = [JStr ''0 8 101'']"
    by (simp add: mediaOf_def example_rewritten_def)
  ultimately show ?thesis
    using p example_session_rewritten w by simp
qed

text \<open>
  Claim C1 as it is written fails on the example. The input carries
  \<^verbatim>\<open>a=rtpmap:101 telephone-event/48000\<close> and \<^verbatim>\<open>a=fmtp:101 0-15\<close>; the rewrite finds an
  entry for 101 in both lists, keeps them and adds none. So the entry for payload 101
  in the result has the clock rate 48000, not 8000, and its format parameter is
  \<^verbatim>\<open>0-15\<close>, not \<^verbatim>\<open>0-16\<close>.
\<close>

theorem rewriteSdp_fmtp_counterexample:
  "rewriteParsed example_session = Some example_rewritten \<and>
   map rtpOf (mediaOf example_rewritten)
     = [[\<lparr>rtp_payload = JNum 0, rtp_codec = JStr ''PCMU'', rtp_rate = JNum 8000,
          rtp_encoding = JUndefined\<rparr>,
         \<lparr>rtp_payload = JNum 101, rtp_codec = JStr ''telephone-event'', rtp_rate = JNum 48000,
          rtp_encoding = JUndefined\<rparr>]] \<and>
   map fmtpOf (mediaOf example_rewritten)
     = [[\<lparr>fmtp_payload = JNum 101, fmtp_config = JStr ''0-15''\<rparr>]]"
  by (simp add: example_session_rewritten mediaOf_def rtpOf_def fmtpOf_def example_rewritten_def)




text \<open>
  Claim C6, as amended. \<^verbatim>\<open>rewriteSdp\<close> applied to its own result gives that result
  again for every body on which the SDP package reads back the object it wrote. What
  the gateway adds to that is proved from its code: the rewrite of an object that is
  already a result of the rewrite changes nothing. When the parse, the rewrite or the
  write raises, the body comes back unchanged, and raises in the same way again.
\<close>

theorem rewriteSdp_idempotent:
  assumes rt: "\<And>parsed rewritten out.
      parse sdp = Some parsed \<Longrightarrow> rewriteParsed parsed = Some rewritten \<Longrightarrow>
      write rewritten = Some out \<Longrightarrow> parse out = Some rewritten"
  shows "rewriteSdp parse write (rewriteSdp parse write sdp) = rewriteSdp parse write sdp"
proof (cases "parse sdp")
  case None
  then show ?thesis by (simp add: rewriteSdp_def)
next
  case (Some parsed)
  show ?thesis
  proof (cases "rewriteParsed parsed")
    case None
    with Some show ?thesis by (simp add: rewriteSdp_def)
  next
    case r: (Some rewritten)
    show ?thesis
    proof (cases "write rewritten")
      case None
      with Some r show ?thesis by (simp add: rewriteSdp_def)
    next
      case w: (Some out)
      have o: "rewriteSdp parse write sdp = out"
        by (simp add: rewriteSdp_def Some r w)
      have "parse out = Some rewritten" by (rule rt [OF Some r w])
      then have "rewriteSdp parse write out = out"
        by (simp add: rewriteSdp_def rewriteParsed_again [OF r] w)
      with o show ?thesis by simp
    qed
  qed
qed

lemma package_offer:
  "package_parse offer_body = Some offer_parsed"
  "rewriteParsed offer_parsed = Some offer_rewritten"
  "package_write offer_rewritten = Some offer_out"
  "package_parse offer_out = Some offer_rewritten"
  by code_simp+

lemma offer_rewritten_body: "rewriteSdp package_parse package_write offer_body = offer_out"
  by (simp add: rewriteSdp_def package_offer)

text \<open>
  On the offer the package reads back what it wrote; the first rewrite replaces the
  Opus offer by the three payloads, and the second rewrite changes nothing.
\<close>

theorem rewriteSdp_idempotent_witness:
  "package_parse offer_body = Some offer_parsed \<and>
   rewriteParsed offer_parsed = Some offer_rewritten \<and>
   package_write offer_rewritten = Some offer_out \<and>
   package_parse offer_out = Some offer_rewritten \<and>
   rewriteSdp package_parse package_write offer_body = offer_out \<and>
   length offer_body = 63 \<and> length offer_out = 92 \<and>
   rewriteSdp package_parse package_write
     (rewriteSdp package_parse package_write offer_body)
   = rewriteSdp package_parse package_write offer_body"
proof -
  have rt: "package_parse out = Some rewritten"
    if "package_parse offer_body = Some parsed" and "rewriteParsed parsed = Some rewritten"
      and "package_write rewritten = Some out" for parsed rewritten out
    using that by (simp add: package_offer)
  have "rewriteSdp package_parse package_write
          (rewriteSdp package_parse package_write offer_body)
        = rewriteSdp package_parse package_write offer_body"
    by (rule rewriteSdp_idempotent) (rule rt)
  moreover have "length offer_body = 63" "length offer_out = 92"
    by code_simp+
  ultimately show ?thesis
    using package_offer offer_rewritten_body by simp
qed

lemma package_big:
  "package_parse big_body = Some big_parsed"
  "rewriteParsed big_parsed = Some big_parsed"
  "package_write big_parsed = Some big_out"
  "package_parse big_out = Some big_reparsed"
  "rewriteParsed big_reparsed = Some big_reparsed"
  "package_write big_reparsed = Some big_out2"
  by code_simp+

text \<open>
  Claim C6 as it is written fails on a body whose origin line carries a 22-digit
  session version: the first application returns the body with the version written as
  \<^verbatim>\<open>1e+21\<close>, and the second, which cannot read that origin line, returns a body without
  it. The two results are 40 and 10 code units long.
\<close>

theorem rewriteSdp_not_idempotent_counterexample:
  "rewriteSdp package_parse package_write big_body = big_out \<and>
   rewriteSdp package_parse package_write
     (rewriteSdp package_parse package_write big_body) = big_out2 \<and>
   big_out2 \<noteq> big_out \<and>
   length big_out = 40 \<and> length big_out2 = 10"
proof -
  have a: "rewriteSdp package_parse package_write big_body = big_out"
    by (simp add: rewriteSdp_def package_big)
  have b: "rewriteSdp package_parse package_write big_out = big_out2"
    by (simp add: rewriteSdp_def package_big)
  have "big_out2 \<noteq> big_out" "length big_out = 40" "length big_out2 = 10"
    by code_simp+
  with a b show ?thesis by simp
qed

section \<open>Properties of the request handler\<close>

text \<open>
  Claim C5. An INVITE is sent on once, with the callback, and in the request sent the
  request-URI and the URI of the To header are \<^verbatim>\<open>sip:\<close>, the destination user, \<^verbatim>\<open>@\<close> and
  the downstream domain. A To header that was there keeps its other fields; one that
  was absent is created with the URI alone. The From header is the one of the input.
\<close>

theorem invite_retargeted:
  assumes "rq_method rq = ''INVITE''"
  shows "\<exists>rq'. onIncomingRequest cfg parse write rq = [ProxySend (Request rq') True] \<and>
           uri rq' = ''sip:'' @ TWILIO_DEST cfg @ ''@'' @ TWILIO_DOMAIN cfg \<and>
           (\<exists>t. hdr_to (headers rq') = Some t \<and>
                na_uri t = ''sip:'' @ TWILIO_DEST cfg @ ''@'' @ TWILIO_DOMAIN cfg) \<and>
           hdr_to (headers rq')
             = Some (case hdr_to (headers rq) of
                       None \<Rightarrow> \<lparr>na_name = None,
                                 na_uri = ''sip:'' @ TWILIO_DEST cfg @ ''@'' @ TWILIO_DOMAIN cfg,
                                 na_params = None\<rparr>
                     | Some t \<Rightarrow>
                         t\<lparr>na_uri := ''sip:'' @ TWILIO_DEST cfg @ ''@'' @ TWILIO_DOMAIN cfg\<rparr>) \<and>
           hdr_from (headers rq') = hdr_from (headers rq)"
  using assms
  by (auto simp: onIncomingRequest_def retarget_def rewriteContent_def destUri_def Let_def
      split: option.splits)

theorem invite_retargeted_witness:
  "rq_method (example_request ''INVITE'') = ''INVITE'' \<and>
   (\<exists>rq'. onIncomingRequest example_config example_parse example_write
            (example_request ''INVITE'')
            = [ProxySend (Request rq') True] \<and>
          uri rq' = ''sip:+5215541655565@nonocard.sip.twilio.com'' \<and>
          (\<exists>t. hdr_to (headers rq') = Some t \<and>
               na_uri t = ''sip:+5215541655565@nonocard.sip.twilio.com'') \<and>
          hdr_from (headers rq') = hdr_from example_headers)"
proof -
  have m: "rq_method (example_request ''INVITE'') = ''INVITE''"
    by (simp add: example_request_def)
  from invite_retargeted [OF m, of example_config example_parse example_write] m
  show ?thesis
    by (auto simp: example_config_def example_request_def)
qed

text \<open>
  Claim C8. A request whose method is ACK, CANCEL, BYE, PRACK or UPDATE is handed to
  \<^verbatim>\<open>proxy.send\<close> as it arrived, once and without a callback: no header, URI or body of it
  is changed.
\<close>

theorem in_dialog_relayed_verbatim:
  assumes "rq_method rq \<in> {''ACK'', ''CANCEL'', ''BYE'', ''PRACK'', ''UPDATE''}"
  shows "onIncomingRequest cfg parse write rq = [ProxySend (Request rq) False]"
  using assms by (auto simp: onIncomingRequest_def)

theorem in_dialog_relayed_verbatim_witness:
  "rq_method (example_request ''BYE'') \<in> {''ACK'', ''CANCEL'', ''BYE'', ''PRACK'', ''UPDATE''} \<and>
   onIncomingRequest example_config example_parse example_write (example_request ''BYE'')
   = [ProxySend (Request (example_request ''BYE'')) False]"
proof -
  have m: "rq_method (example_request ''BYE'')
             \<in> {''ACK'', ''CANCEL'', ''BYE'', ''PRACK'', ''UPDATE''}"
    by (simp add: example_request_def)
  from in_dialog_relayed_verbatim [OF m] m show ?thesis by simp
qed

text \<open>
  Claim C9. A request whose method is none of INVITE, ACK, CANCEL, BYE, PRACK and
  UPDATE causes one call of \<^verbatim>\<open>proxy.send\<close>, with the response made from it with status
  405 and reason \<^verbatim>\<open>Method Not Allowed\<close>; no request is sent anywhere.
\<close>

theorem other_method_not_allowed:
  assumes "rq_method rq \<notin> {''INVITE'', ''ACK'', ''CANCEL'', ''BYE'', ''PRACK'', ''UPDATE''}"
  shows "onIncomingRequest cfg parse write rq
           = [ProxySend (MadeResponse rq 405 ''Method Not Allowed'') False] \<and>
         filter sends_request (onIncomingRequest cfg parse write rq) = []"
  using assms by (simp add: onIncomingRequest_def)

theorem other_method_not_allowed_witness:
  "rq_method (example_request ''OPTIONS'')
     \<notin> {''INVITE'', ''ACK'', ''CANCEL'', ''BYE'', ''PRACK'', ''UPDATE''} \<and>
   onIncomingRequest example_config example_parse example_write (example_request ''OPTIONS'')
     = [ProxySend (MadeResponse (example_request ''OPTIONS'') 405 ''Method Not Allowed'') False] \<and>
   filter sends_request
     (onIncomingRequest example_config example_parse example_write (example_request ''OPTIONS''))
     = []"
proof -
  have m: "rq_method (example_request ''OPTIONS'')
     \<notin> {''INVITE'', ''ACK'', ''CANCEL'', ''BYE'', ''PRACK'', ''UPDATE''}"
    by (simp add: example_request_def)
  from other_method_not_allowed [OF m] m show ?thesis by simp
qed

subsection \<open>The byte length and its decimal text\<close>

lemma length_utf8Unit:
  "length (utf8Unit c) = (if c < 0x80 then 1 else if c < 0x800 then 2 else 3)"
  by (simp add: utf8Unit_def)

lemma length_utf8Pair: "length (utf8Pair c d) = 4"
  by (simp add: utf8Pair_def Let_def)

lemma not_surrogate_below_800:
  fixes c :: "16 word"
  assumes "c < 0x800"
  shows "\<not> 0xD800 \<le> c"
proof
  assume "0xD800 \<le> c"
  then have "(0xD800 :: 16 word) < 0x800" using assms by (rule le_less_trans)
  then show False by simp
qed

lemma below_80_below_800:
  fixes c :: "16 word"
  assumes "c < 0x80"
  shows "c < 0x800"
proof -
  have "(0x80 :: 16 word) < 0x800" by simp
  with assms show ?thesis by (rule less_trans)
qed

text \<open>\<^verbatim>\<open>Buffer.byteLength\<close> counts the bytes of the UTF-8 form.\<close>

lemma byteLength_utf8: "byteLength s = length (utf8 s)"
proof (induction s rule: byteLength.induct)
  case 1
  show ?case by simp
next
  case (2 c)
  show ?case by (simp add: length_utf8Unit)
next
  case (3 c d cs)
  show ?case
  proof (cases "c < 0x800")
    case True
    then have "\<not> 0xD800 \<le> c" by (rule not_surrogate_below_800)
    with True 3 show ?thesis
      by (simp add: length_utf8Unit)
  next
    case False
    then have "\<not> c < 0x80" using below_80_below_800 by blast
    with False 3 show ?thesis
      by (simp add: length_utf8Unit length_utf8Pair)
  qed
qed

text \<open>The byte length is not the number of code units: two units here are five bytes.\<close>

lemma byteLength_counts_bytes:
  "byteLength [0xE9, 0x20AC] = 5 \<and> length [0xE9 :: 16 word, 0x20AC] = 2"
  by simp

lemma digitValue_char_of: "(d::nat) < 10 \<Longrightarrow> digitValue (char_of (48 + d)) = Some d"
  by (simp add: digitValue_def Let_def)

lemma isRadixDigit_char_of: "(d::nat) < 10 \<Longrightarrow> isRadixDigit 10 (char_of (48 + d))"
  by (simp add: isRadixDigit_def digitValue_char_of)

lemma toString_not_Nil: "toString n \<noteq> []"
  by (subst toString.simps) simp

lemma toString_digits: "list_all (isRadixDigit 10) (toString n)"
proof (induction n rule: toString.induct)
  case (1 n)
  show ?case
  proof (cases "n < 10")
    case True
    then show ?thesis by (subst toString.simps) (simp add: isRadixDigit_char_of)
  next
    case False
    with 1 show ?thesis by (subst toString.simps) (simp add: isRadixDigit_char_of)
  qed
qed

lemma digitsValue_snoc:
  "digitsValue R (z @ [c])
     = digitsValue R z * R + (case digitValue c of None \<Rightarrow> 0 | Some d \<Rightarrow> d)"
  by (simp add: digitsValue_def)

lemma toString_value: "digitsValue 10 (toString n) = n"
proof (induction n rule: toString.induct)
  case (1 n)
  show ?case
  proof (cases "n < 10")
    case True
    then show ?thesis
      by (subst toString.simps) (simp add: digitsValue_def digitValue_char_of)
  next
    case False
    with 1 have "digitsValue 10 (toString (n div 10)) = n div 10" by simp
    with False show ?thesis
      by (subst toString.simps) (simp add: digitsValue_snoc digitValue_char_of)
  qed
qed

lemma char_of_48_zero: "(d::nat) < 10 \<Longrightarrow> (char_of (48 + d) = CHR ''0'') = (d = 0)"
proof -
  assume d: "(d::nat) < 10"
  have "(char_of (48 + d) = CHR ''0'')
          = ((of_char (char_of (48 + d)) :: nat) = of_char CHR ''0'')"
    by (metis of_char_eq_iff)
  also have "\<dots> = (d = 0)" using d by simp
  finally show ?thesis .
qed

lemma toString_leading: "hd (toString n) = CHR ''0'' \<Longrightarrow> n = 0"
proof (induction n rule: toString.induct)
  case (1 n)
  show ?case
  proof (cases "n < 10")
    case True
    with "1.prems" show ?thesis
      by (subst (asm) toString.simps) (simp add: char_of_48_zero)
  next
    case False
    with "1.prems" have "hd (toString (n div 10)) = CHR ''0''"
      by (subst (asm) toString.simps) (simp add: toString_not_Nil)
    with 1 False have "n div 10 = 0" by simp
    with False show ?thesis by simp
  qed
qed

lemma toString_zero: "toString 0 = ''0''"
  by code_simp

text \<open>
  Claim C10. In the request sent for an INVITE with a body, the body is the result of
  \<^verbatim>\<open>rewriteSdp\<close>, and the Content-Length header is a text of decimal digits, without a
  leading zero, whose value is the number of bytes of that result in UTF-8 (not the
  number of its characters). An INVITE with no body, or with an empty one, is sent with
  the body and the Content-Length header it came with.
\<close>

theorem invite_content_length:
  assumes "rq_method rq = ''INVITE''"
  shows "\<exists>rq'. onIncomingRequest cfg parse write rq = [ProxySend (Request rq') True] \<and>
           (case content rq of
              None \<Rightarrow> content rq' = None \<and>
                        hdr_content_length (headers rq') = hdr_content_length (headers rq)
            | Some c \<Rightarrow>
                if c = [] then
                  content rq' = Some [] \<and>
                  hdr_content_length (headers rq') = hdr_content_length (headers rq)
                else
                  content rq' = Some (rewriteSdp parse write c) \<and>
                  (\<exists>d. hdr_content_length (headers rq') = Some (JStr d) \<and>
                       d \<noteq> [] \<and> list_all (isRadixDigit 10) d \<and>
                       (hd d = CHR ''0'' \<longrightarrow> d = ''0'') \<and>
                       digitsValue 10 d = length (utf8 (rewriteSdp parse write c))))"
proof -
  define n where "n = byteLength (rewriteSdp parse write (the (content rq)))"
  have d: "toString n \<noteq> [] \<and> list_all (isRadixDigit 10) (toString n) \<and>
           (hd (toString n) = CHR ''0'' \<longrightarrow> toString n = ''0'') \<and>
           digitsValue 10 (toString n)
             = length (utf8 (rewriteSdp parse write (the (content rq))))"
    using toString_leading [of n] toString_zero
    by (auto simp: toString_not_Nil toString_digits toString_value n_def byteLength_utf8)
  show ?thesis
  proof (cases "content rq")
    case None
    with assms show ?thesis
      by (simp add: onIncomingRequest_def retarget_def rewriteContent_def Let_def)
  next
    case (Some c)
    show ?thesis
    proof (cases "c = []")
      case True
      with Some assms show ?thesis
        by (simp add: onIncomingRequest_def retarget_def rewriteContent_def Let_def)
    next
      case False
      with Some assms d show ?thesis
        by (simp add: onIncomingRequest_def retarget_def rewriteContent_def Let_def n_def)
    qed
  qed
qed

text \<open>
  The theorem at the INVITE that carries the offer. The body sent is the rewritten
  offer, 92 code units long; one of them is U+00E9, two bytes in UTF-8, so the body is
  93 bytes, and the header sent is \<^verbatim>\<open>93\<close>, not \<^verbatim>\<open>92\<close>.
\<close>

theorem invite_content_length_witness:
  "rq_method offer_invite = ''INVITE'' \<and>
   (\<exists>rq'. onIncomingRequest example_config package_parse package_write offer_invite
            = [ProxySend (Request rq') True] \<and>
          content rq' = Some offer_out \<and>
          length offer_out = 92 \<and>
          length (utf8 offer_out) = 93 \<and>
          take 12 (utf8 offer_out)
            = [0x76, 0x3D, 0x30, 0x0D, 0x0A, 0x73, 0x3D, 0x63, 0x61, 0x66, 0xC3, 0xA9] \<and>
          hdr_content_length (headers rq') = Some (JStr ''93''))"
proof -
  have m: "rq_method offer_invite = ''INVITE''"
    by (simp add: offer_invite_def)
  have c: "content offer_invite = Some offer_body"
    by (simp add: offer_invite_def)
  have ne: "offer_body \<noteq> []"
    by code_simp
  have l: "length offer_out = 92" "length (utf8 offer_out) = 93"
          "take 12 (utf8 offer_out)
             = [0x76, 0x3D, 0x30, 0x0D, 0x0A, 0x73, 0x3D, 0x63, 0x61, 0x66, 0xC3, 0xA9]"
    by code_simp+
  have t: "toString 93 = ''93''"
    by code_simp
  from invite_content_length [OF m, of example_config package_parse package_write]
  obtain rq' where s: "onIncomingRequest example_config package_parse package_write
            offer_invite = [ProxySend (Request rq') True]"
    and b: "content rq' = Some offer_out"
    using ne by (auto simp: c offer_rewritten_body)
  have "onIncomingRequest example_config package_parse package_write offer_invite
          = [ProxySend (Request (retarget example_config
               (rewriteContent package_parse package_write offer_invite))) True]"
    by (simp add: onIncomingRequest_def m)
  with s have "rq' = retarget example_config
                       (rewriteContent package_parse package_write offer_invite)"
    by simp
  then have "hdr_content_length (headers rq') = Some (JStr ''93'')"
    by (simp add: retarget_def rewriteContent_def c ne Let_def offer_rewritten_body
        byteLength_utf8 l t)
  with m s b l show ?thesis by blast
qed

section \<open>Properties of the response callback\<close>

lemma callback_challenge_signed:
  assumes "status rs = JNum 401 \<or> status rs = JNum 407"
    and "sign sess rq rs creds = Signed sess' rq'"
  shows "defaultProxyCallback sign creds sess rq rs
           = \<lparr>cb_sent = [ProxySend (Request rq') False], cb_uncaught = False,
              cb_session = sess', cb_rq = rq'\<rparr>"
  using assms by (auto simp: defaultProxyCallback_def)

text \<open>
  Whatever the signer does with a challenge, the callback relays no response for it:
  it sends the signed request, or, when the signer raises, nothing.
\<close>

lemma callback_challenge_no_response:
  assumes "status rs = JNum 401 \<or> status rs = JNum 407"
  shows "filter sends_response (cb_sent (defaultProxyCallback sign creds sess rq rs)) = []"
  using assms by (auto simp: defaultProxyCallback_def split: sign_result.splits)

lemma runTransaction_package:
  "runTransaction sign creds pkg PackageCallback sess rq rss = concat (map pkg rss)"
  by (induction rss) simp_all

lemma callback_other_relayed:
  assumes "status rs \<noteq> JNum 401" and "status rs \<noteq> JNum 407"
  shows "defaultProxyCallback sign creds sess rq rs
           = \<lparr>cb_sent = [ProxySend (Response rs) False], cb_uncaught = False,
              cb_session = sess, cb_rq = rq\<rparr>"
  using assms by (simp add: defaultProxyCallback_def)

text \<open>
  Claim C2, as amended. The gateway keeps no count of challenges and makes no
  gateway-failure response. In a transaction its callback relays the responses that
  come before the first 401 or 407, answers that challenge, when the signer returns, by
  sending the signed request once more, without a callback, and is not run again: every
  later response, a further challenge too, is given to the \<^verbatim>\<open>sip\<close> package's own
  callback. So the request is sent again at most once, and what reaches the caller
  after a second challenge is whatever the package's callback sends.
\<close>

theorem challenge_resent_once:
  assumes pre: "\<forall>rs\<in>set before. status rs \<noteq> JNum 401 \<and> status rs \<noteq> JNum 407"
    and st: "status ch = JNum 401 \<or> status ch = JNum 407"
    and sg: "sign sess rq ch creds = Signed sess' rq'"
  shows "runTransaction sign creds pkg GatewayCallback sess rq (before @ ch # later)
           = map (\<lambda>rs. ProxySend (Response rs) False) before @
             ProxySend (Request rq') False # concat (map pkg later)"
  using pre
proof (induction before)
  case Nil
  have "defaultProxyCallback sign creds sess rq ch
          = \<lparr>cb_sent = [ProxySend (Request rq') False], cb_uncaught = False,
             cb_session = sess', cb_rq = rq'\<rparr>"
    using st sg by (rule callback_challenge_signed)
  then show ?case by (simp add: runTransaction_package)
next
  case (Cons rs before)
  then have "status rs \<noteq> JNum 401" and "status rs \<noteq> JNum 407" by simp_all
  then have "defaultProxyCallback sign creds sess rq rs
          = \<lparr>cb_sent = [ProxySend (Response rs) False], cb_uncaught = False,
             cb_session = sess, cb_rq = rq\<rparr>"
    by (rule callback_other_relayed)
  with Cons show ?case by simp
qed

lemma example_challenge_signed:
  "example_signer sessionTwilio (example_request ''INVITE'') example_challenge
     example_credentials
   = Signed example_used_session
       ((example_request ''INVITE'')
          \<lparr>headers := example_headers\<lparr>hdr_authorization := Some ''u:abc123''\<rparr>\<rparr>)"
  by (simp add: example_signer_def signRequest_spec_def challengeOf_def example_challenge_def
      sessionTwilio_def example_used_session_def example_digest_def example_credentials_def
      credentialsTwilio_def example_config_def example_request_def Let_def)

text \<open>
  The theorem on a transaction of three responses: \<^verbatim>\<open>100 Trying\<close> is relayed, the
  first 401 is answered by the signed request, and the second 401 is left to the
  package's callback, which passes it on.
\<close>

theorem challenge_resent_once_witness:
  "map status [example_trying] = [JNum 100] \<and>
   status example_challenge = JNum 401 \<and>
   example_signer sessionTwilio (example_request ''INVITE'') example_challenge
     example_credentials
   = Signed example_used_session
       ((example_request ''INVITE'')
          \<lparr>headers := example_headers\<lparr>hdr_authorization := Some ''u:abc123''\<rparr>\<rparr>) \<and>
   runTransaction example_signer example_credentials example_package_callback GatewayCallback
     sessionTwilio (example_request ''INVITE'')
     [example_trying, example_challenge, example_challenge]
   = [ProxySend (Response example_trying) False,
      ProxySend (Request ((example_request ''INVITE'')
         \<lparr>headers := example_headers\<lparr>hdr_authorization := Some ''u:abc123''\<rparr>\<rparr>)) False,
      ProxySend (Response example_challenge) False]"
proof -
  have pre: "\<forall>rs\<in>set [example_trying]. status rs \<noteq> JNum 401 \<and> status rs \<noteq> JNum 407"
    by (simp add: example_trying_def)
  have st: "status example_challenge = JNum 401 \<or> status example_challenge = JNum 407"
    by (simp add: example_challenge_def)
  have "runTransaction example_signer example_credentials example_package_callback
          GatewayCallback sessionTwilio (example_request ''INVITE'')
          ([example_trying] @ example_challenge # [example_challenge])
        = map (\<lambda>rs. ProxySend (Response rs) False) [example_trying] @
          ProxySend (Request ((example_request ''INVITE'')
            \<lparr>headers := example_headers\<lparr>hdr_authorization := Some ''u:abc123''\<rparr>\<rparr>)) False #
          concat (map example_package_callback [example_challenge])"
    using pre st example_challenge_signed by (rule challenge_resent_once)
  then show ?thesis
    using example_challenge_signed
    by (simp add: example_package_callback_def example_trying_def example_challenge_def)
qed

text \<open>
  Claim C2 as it is written fails on two challenges in a row. The first is answered by
  the signed request; after that one retry the second is not answered by the gateway at
  all but passed on by the package's callback, so what is relayed to the caller is the
  challenge itself, with its status 401, and no gateway-failure status.
\<close>

theorem second_challenge_relayed_counterexample:
  "runTransaction example_signer example_credentials example_package_callback GatewayCallback
     sessionTwilio (example_request ''INVITE'') [example_challenge, example_challenge]
   = [ProxySend (Request ((example_request ''INVITE'')
         \<lparr>headers := example_headers\<lparr>hdr_authorization := Some ''u:abc123''\<rparr>\<rparr>)) False,
      ProxySend (Response example_challenge) False] \<and>
   status example_challenge = JNum 401"
  by (simp add: defaultProxyCallback_def example_challenge_signed example_package_callback_def)
    (simp add: example_challenge_def)

text \<open>
  Claim C3, for the signer of the specification. When the callback has handled a 401 or
  407 whose challenge names a realm and a nonce, the session it leaves holds that
  nonce. If the session held the same nonce before, the nonce-count is one more than
  before, so strictly greater, and the client nonce is kept; otherwise the nonce-count
  is 1 and the client nonce is the fresh one.
\<close>

theorem challenge_nonce_count:
  assumes st: "status rs = JNum 401 \<or> status rs = JNum 407"
    and ch: "challengeOf rs = Some ch"
    and rl: "ch_realm ch = Some realm"
    and nn: "ch_nonce ch = Some nonce"
  shows "(as_nonce sess = Some nonce \<longrightarrow>
            as_nonce (cb_session (defaultProxyCallback (signRequest_spec d fresh) creds sess rq rs))
              = Some nonce \<and>
            as_nc (cb_session (defaultProxyCallback (signRequest_spec d fresh) creds sess rq rs))
              = as_nc sess + 1 \<and>
            as_nc sess
              < as_nc (cb_session
                         (defaultProxyCallback (signRequest_spec d fresh) creds sess rq rs)) \<and>
            as_cnonce (cb_session (defaultProxyCallback (signRequest_spec d fresh) creds sess rq rs))
              = as_cnonce sess) \<and>
         (as_nonce sess \<noteq> Some nonce \<longrightarrow>
            as_nonce (cb_session (defaultProxyCallback (signRequest_spec d fresh) creds sess rq rs))
              = Some nonce \<and>
            as_nc (cb_session (defaultProxyCallback (signRequest_spec d fresh) creds sess rq rs))
              = 1 \<and>
            as_cnonce (cb_session (defaultProxyCallback (signRequest_spec d fresh) creds sess rq rs))
              = Some fresh)"
  using st by (auto simp: defaultProxyCallback_def signRequest_spec_def ch rl nn Let_def)

text \<open>
  The specification's example: the first challenge with nonce \<^verbatim>\<open>abc123\<close> leaves the count
  at 1, a second one with the same nonce advances it to 2.
\<close>

theorem challenge_nonce_count_witness:
  "(status example_challenge = JNum 401 \<or> status example_challenge = JNum 407) \<and>
   (\<exists>ch. challengeOf example_challenge = Some ch \<and> ch_realm ch = Some ''sip.twilio.com'' \<and>
         ch_nonce ch = Some ''abc123'') \<and>
   as_nonce sessionTwilio \<noteq> Some ''abc123'' \<and>
   cb_session (defaultProxyCallback example_signer example_credentials sessionTwilio
                 (example_request ''INVITE'') example_challenge) = example_used_session \<and>
   as_nonce example_used_session = Some ''abc123'' \<and>
   as_nc (cb_session (defaultProxyCallback example_signer example_credentials
                        example_used_session (example_request ''INVITE'') example_challenge)) = 2"
proof -
  define ch where "ch = \<lparr>ch_realm = Some ''sip.twilio.com'', ch_nonce = Some ''abc123'',
                         ch_algorithm = None, ch_qop = Some ''auth''\<rparr>"
  have st: "status example_challenge = JNum 401 \<or> status example_challenge = JNum 407"
    by (simp add: example_challenge_def)
  have c: "challengeOf example_challenge = Some ch"
    by (simp add: challengeOf_def example_challenge_def ch_def)
  have rl: "ch_realm ch = Some ''sip.twilio.com''" and nn: "ch_nonce ch = Some ''abc123''"
    by (simp_all add: ch_def)
  have u: "as_nonce example_used_session = Some ''abc123''" "as_nc example_used_session = 1"
    by (simp_all add: example_used_session_def)
  have f: "as_nonce sessionTwilio \<noteq> Some ''abc123''"
    by (simp add: sessionTwilio_def)
  have first: "cb_session (defaultProxyCallback example_signer example_credentials sessionTwilio
                 (example_request ''INVITE'') example_challenge) = example_used_session"
    by (simp add: example_signer_def defaultProxyCallback_def signRequest_spec_def
        challengeOf_def example_challenge_def sessionTwilio_def example_used_session_def Let_def)
  from challenge_nonce_count [OF st c rl nn, of example_used_session example_digest
      "''0a4f113b''" example_credentials "example_request ''INVITE''"] u
  have "as_nc (cb_session (defaultProxyCallback example_signer example_credentials
                        example_used_session (example_request ''INVITE'') example_challenge)) = 2"
    by (simp add: example_signer_def)
  with st c rl nn u f first show ?thesis by simp
qed

text \<open>
  Claim C4 at a failing input: a 401 that carries no challenge header at all. Whatever
  the signer does with it, the callback relays no response to the caller. With the
  signer of the specification, which cannot read a nonce or a realm and raises, the
  exception leaves the callback: the request is not sent again, and nothing is sent to
  the caller either, where the claim has a server-error response.
\<close>

theorem unparsed_challenge_unanswered:
  "filter sends_response
     (cb_sent (defaultProxyCallback sign creds sess rq
                 (example_challenge\<lparr>rs_headers := example_headers\<rparr>))) = [] \<and>
   defaultProxyCallback example_signer example_credentials sessionTwilio
     (example_request ''INVITE'') (example_challenge\<lparr>rs_headers := example_headers\<rparr>)
   = \<lparr>cb_sent = [], cb_uncaught = True, cb_session = sessionTwilio,
      cb_rq = example_request ''INVITE''\<rparr>"
proof -
  have "status (example_challenge\<lparr>rs_headers := example_headers\<rparr>) = JNum 401"
    by (simp add: example_challenge_def)
  then have "filter sends_response
     (cb_sent (defaultProxyCallback sign creds sess rq
                 (example_challenge\<lparr>rs_headers := example_headers\<rparr>))) = []"
    by (simp add: callback_challenge_no_response)
  moreover have "defaultProxyCallback example_signer example_credentials sessionTwilio
     (example_request ''INVITE'') (example_challenge\<lparr>rs_headers := example_headers\<rparr>)
   = \<lparr>cb_sent = [], cb_uncaught = True, cb_session = sessionTwilio,
      cb_rq = example_request ''INVITE''\<rparr>"
    by (simp add: example_signer_def defaultProxyCallback_def signRequest_spec_def
        challengeOf_def example_challenge_def example_headers_def)
  ultimately show ?thesis by (rule conjI)
qed

end
